theory Spec2Isabelle
  imports Main
begin

section \<open>The gateway watchdog of src/discord (class GatewayWatchdog)\<close>

text \<open>
  The class \<^verbatim>\<open>GatewayWatchdog\<close> watches a Discord gateway connection. A listener on the
  gateway's event emitter records the time of the last event, an interval timer runs
  \<^verbatim>\<open>check()\<close>, and a stale check forces a reconnect: \<^verbatim>\<open>gateway.disconnect()\<close> now,
  \<^verbatim>\<open>gateway.connect(resume)\<close> from a \<^verbatim>\<open>setTimeout\<close> of 1000 ms.

  The model is explicit state passing over a record \<open>world\<close>: the clock and the timer
  queues of the JavaScript runtime, the gateway object, a trace of what has been done
  to the gateway, and the private fields of the watchdog. JavaScript numbers are
  modelled as \<open>int\<close>: \<^verbatim>\<open>Date.now()\<close> is an integral number of milliseconds and the
  counter is only ever incremented from 0. The methods of the gateway are opaque: a
  call is recorded in the trace and has no other effect in the model.
\<close>

subsection \<open>The gateway object\<close>

text \<open>\<^verbatim>\<open>state?: { sessionId, resumeGatewayUrl, sequence }\<close>, \<open>None\<close> standing for null.\<close>

record session_state =
  sessionId :: "string option"
  resumeGatewayUrl :: "string option"
  sequence :: "int option"

text \<open>
  \<^verbatim>\<open>sequence?: number | null\<close> on the gateway itself. The code tests
  \<^verbatim>\<open>"sequence" in gateway\<close>, so a missing property (\<open>NoProp\<close>) differs from a property
  that holds undefined or null.
\<close>

datatype seq_prop = NoProp | Undef | Null | Num int

datatype event_name = Debug | Metrics

text \<open>
  The emitter, reduced to the two events the watchdog subscribes to. A listener is a
  closure; it is identified by the number it was allocated under, since
  \<^verbatim>\<open>removeListener\<close> compares closures by identity.
\<close>

record event_emitter =
  debug_listeners :: "nat list"
  metrics_listeners :: "nat list"

record gateway =
  isConnected :: bool
  state :: "session_state option"
  gw_sequence :: seq_prop
  emitter :: "event_emitter option"

text \<open>What the watchdog does to the gateway, in program order.\<close>

datatype handle_op =
    ClearSessionId
  | ClearResumeGatewayUrl
  | ClearStateSequence
  | ClearSequence
  | CallDisconnect
  | CallConnect bool

datatype log_line = LogStarted | LogNotActive | LogFreshConnect | LogReconnect

subsection \<open>The watchdog object and its constructor\<close>

record watchdog =
  lastEventAt :: int
  consecutiveStale :: int
  checkTimer :: "nat option"
  eventListener :: "nat option"
  checkIntervalMs :: int
  staleThresholdMs :: int
  maxStaleBeforeFreshConnect :: int

text \<open>The numeric options of \<^verbatim>\<open>GatewayWatchdogOpts\<close>; \<open>None\<close> is an omitted option.\<close>

record watchdog_opts =
  opt_checkIntervalMs :: "int option"
  opt_staleThresholdMs :: "int option"
  opt_maxStaleBeforeFreshConnect :: "int option"

datatype config_error = InvalidConfiguration

text \<open>
  \<^verbatim>\<open>this.opts = { checkIntervalMs: 60_000, staleThresholdMs: 120_000,
  maxStaleBeforeFreshConnect: 3, ...opts }\<close>, with the field initialisers
  \<^verbatim>\<open>lastEventAt = Date.now()\<close> and \<^verbatim>\<open>consecutiveStale = 0\<close>. The second argument is
  the value of \<^verbatim>\<open>Date.now()\<close>. The constructor has no \<^verbatim>\<open>throw\<close>: the result type has
  an error side only so that failure can be talked about.
\<close>

definition new_GatewayWatchdog :: "watchdog_opts \<Rightarrow> int \<Rightarrow> config_error + watchdog" where
  "new_GatewayWatchdog opts t =
     Inr \<lparr> lastEventAt = t,
           consecutiveStale = 0,
           checkTimer = None,
           eventListener = None,
           checkIntervalMs = (case opt_checkIntervalMs opts of None \<Rightarrow> 60000 | Some v \<Rightarrow> v),
           staleThresholdMs = (case opt_staleThresholdMs opts of None \<Rightarrow> 120000 | Some v \<Rightarrow> v),
           maxStaleBeforeFreshConnect =
             (case opt_maxStaleBeforeFreshConnect opts of None \<Rightarrow> 3 | Some v \<Rightarrow> v) \<rparr>"

subsection \<open>The world: runtime, gateway, watchdog\<close>

text \<open>
  \<open>intervals\<close> holds the active \<^verbatim>\<open>setInterval\<close> timers as (handle, delay, next due time),
  \<open>timeouts\<close> the pending \<^verbatim>\<open>setTimeout\<close> callbacks as (due time, resume), the callback
  being \<^verbatim>\<open>() => gateway.connect(resume)\<close>. \<open>next_id\<close> allocates closures and timer
  handles. \<open>aborted\<close> is \<^verbatim>\<open>abortSignal?.aborted\<close>, \<open>None\<close> when no signal was given.
\<close>

record world =
  now :: int
  intervals :: "(nat \<times> int \<times> int) list"
  timeouts :: "(int \<times> bool) list"
  next_id :: nat
  gateway :: gateway
  handle_ops :: "handle_op list"
  aborted :: "bool option"
  logs :: "log_line list"
  wd :: watchdog

definition runtime_log :: "log_line \<Rightarrow> world \<Rightarrow> world" where
  "runtime_log l w = w\<lparr>logs := logs w @ [l]\<rparr>"

definition gateway_disconnect :: "world \<Rightarrow> world" where
  "gateway_disconnect w = w\<lparr>handle_ops := handle_ops w @ [CallDisconnect]\<rparr>"

definition gateway_connect :: "bool \<Rightarrow> world \<Rightarrow> world" where
  "gateway_connect resume w = w\<lparr>handle_ops := handle_ops w @ [CallConnect resume]\<rparr>"

text \<open>\<^verbatim>\<open>setTimeout(() => { gateway.connect(resume); }, 1000)\<close>\<close>

definition setTimeout_connect :: "bool \<Rightarrow> world \<Rightarrow> world" where
  "setTimeout_connect resume w = w\<lparr>timeouts := timeouts w @ [(now w + 1000, resume)]\<rparr>"

text \<open>
  \<^verbatim>\<open>if (gateway.state) { gateway.state.sessionId = null;
  gateway.state.resumeGatewayUrl = null; gateway.state.sequence = null; }\<close>
\<close>

definition clear_state :: "world \<Rightarrow> world" where
  "clear_state w =
     (case state (gateway w) of
        None \<Rightarrow> w
      | Some s \<Rightarrow>
          w\<lparr>gateway := (gateway w)\<lparr>state :=
                Some (s\<lparr>sessionId := None, resumeGatewayUrl := None, sequence := None\<rparr>)\<rparr>,
            handle_ops := handle_ops w @
                [ClearSessionId, ClearResumeGatewayUrl, ClearStateSequence]\<rparr>)"

text \<open>\<^verbatim>\<open>if ("sequence" in gateway) { gateway.sequence = null; }\<close>\<close>

definition clear_sequence :: "world \<Rightarrow> world" where
  "clear_sequence w =
     (if gw_sequence (gateway w) = NoProp then w
      else w\<lparr>gateway := (gateway w)\<lparr>gw_sequence := Null\<rparr>,
             handle_ops := handle_ops w @ [ClearSequence]\<rparr>)"

subsection \<open>check()\<close>

definition check :: "world \<Rightarrow> world" where
  "check w =
     (let silentMs = now w - lastEventAt (wd w) in
      if silentMs < staleThresholdMs (wd w) then w
      else
        let w1 = w\<lparr>wd := (wd w)\<lparr>consecutiveStale := consecutiveStale (wd w) + 1\<rparr>\<rparr> in
        if \<not> isConnected (gateway w1) then runtime_log LogNotActive w1
        else if consecutiveStale (wd w1) \<ge> maxStaleBeforeFreshConnect (wd w1) then
          (let w2 = runtime_log LogFreshConnect w1;
               w3 = clear_state w2;
               w4 = clear_sequence w3;
               w5 = gateway_disconnect w4;
               w6 = setTimeout_connect False w5;
               w7 = w6\<lparr>wd := (wd w6)\<lparr>consecutiveStale := 0\<rparr>\<rparr>
           in w7\<lparr>wd := (wd w7)\<lparr>lastEventAt := now w7\<rparr>\<rparr>)
        else
          (let w2 = runtime_log LogReconnect w1;
               w3 = gateway_disconnect w2;
               w4 = setTimeout_connect True w3
           in w4\<lparr>wd := (wd w4)\<lparr>lastEventAt := now w4\<rparr>\<rparr>))"

subsection \<open>The liveness listener\<close>

text \<open>
  The closure installed by \<^verbatim>\<open>start()\<close>:
  \<^verbatim>\<open>() => { this.lastEventAt = Date.now(); this.consecutiveStale = 0; }\<close>
\<close>

definition eventListener_call :: "world \<Rightarrow> world" where
  "eventListener_call w =
     w\<lparr>wd := (wd w)\<lparr>lastEventAt := now w, consecutiveStale := 0\<rparr>\<rparr>"

subsection \<open>start() and stop()\<close>

text \<open>
  Node's timers run with a delay of 1 ms when the delay given is below 1 or above
  2147483647.
\<close>

definition node_timer_delay :: "int \<Rightarrow> int" where
  "node_timer_delay d = (if d < 1 \<or> 2147483647 < d then 1 else d)"

text \<open>
  \<^verbatim>\<open>if (gateway.emitter) { this.eventListener = () => {...};
  gateway.emitter.on("debug", this.eventListener);
  gateway.emitter.on("metrics", this.eventListener); }\<close>
\<close>

definition subscribe :: "world \<Rightarrow> world" where
  "subscribe w =
     (case emitter (gateway w) of
        None \<Rightarrow> w
      | Some em \<Rightarrow>
          (let l = next_id w in
           w\<lparr>next_id := Suc l,
             wd := (wd w)\<lparr>eventListener := Some l\<rparr>,
             gateway := (gateway w)\<lparr>emitter :=
               Some (em\<lparr>debug_listeners := debug_listeners em @ [l],
                        metrics_listeners := metrics_listeners em @ [l]\<rparr>)\<rparr>\<rparr>))"

text \<open>
  \<^verbatim>\<open>start()\<close>: subscribe, then \<^verbatim>\<open>this.checkTimer = setInterval(..., checkIntervalMs)\<close>,
  then the log line. Neither field is looked at before it is overwritten.
\<close>

definition start :: "world \<Rightarrow> world" where
  "start w =
     (let w1 = subscribe w;
          t = next_id w1;
          d = node_timer_delay (checkIntervalMs (wd w1));
          w2 = w1\<lparr>next_id := Suc t,
                  intervals := intervals w1 @ [(t, d, now w1 + d)],
                  wd := (wd w1)\<lparr>checkTimer := Some t\<rparr>\<rparr>
      in runtime_log LogStarted w2)"

text \<open>\<^verbatim>\<open>removeListener\<close> removes one instance of the listener, the one added last.\<close>

definition removeListener :: "nat \<Rightarrow> nat list \<Rightarrow> nat list" where
  "removeListener l ls = rev (remove1 l (rev ls))"

text \<open>
  \<^verbatim>\<open>stop()\<close>: \<^verbatim>\<open>clearInterval(this.checkTimer)\<close> when the field is set, and removal of
  \<^verbatim>\<open>this.eventListener\<close> from both events when the field is set and the gateway has an
  emitter. Pending \<^verbatim>\<open>setTimeout\<close> callbacks are not touched: their handles were never
  kept.
\<close>

definition stop :: "world \<Rightarrow> world" where
  "stop w =
     (let w1 = (case checkTimer (wd w) of
                  None \<Rightarrow> w
                | Some t \<Rightarrow>
                    w\<lparr>intervals := filter (\<lambda>(i, d, due). i \<noteq> t) (intervals w),
                      wd := (wd w)\<lparr>checkTimer := None\<rparr>\<rparr>)
      in case eventListener (wd w1) of
           None \<Rightarrow> w1
         | Some l \<Rightarrow>
             (case emitter (gateway w1) of
                None \<Rightarrow> w1
              | Some em \<Rightarrow>
                  w1\<lparr>gateway := (gateway w1)\<lparr>emitter :=
                        Some (em\<lparr>debug_listeners := removeListener l (debug_listeners em),
                                 metrics_listeners := removeListener l (metrics_listeners em)\<rparr>)\<rparr>,
                     wd := (wd w1)\<lparr>eventListener := None\<rparr>\<rparr>))"

subsection \<open>The runtime: events, timers, the clock\<close>

definition listeners_of :: "event_name \<Rightarrow> event_emitter \<Rightarrow> nat list" where
  "listeners_of n em = (case n of Debug \<Rightarrow> debug_listeners em | Metrics \<Rightarrow> metrics_listeners em)"

text \<open>
  \<^verbatim>\<open>emitter.emit(name, ...)\<close> calls every listener registered for the event, in
  order. The listeners of the model are the closures installed by \<^verbatim>\<open>start()\<close>.
\<close>

definition emit :: "event_name \<Rightarrow> world \<Rightarrow> world" where
  "emit n w =
     (case emitter (gateway w) of
        None \<Rightarrow> w
      | Some em \<Rightarrow> fold (\<lambda>l. eventListener_call) (listeners_of n em) w)"

text \<open>
  The callback given to \<^verbatim>\<open>setInterval\<close>:
  \<^verbatim>\<open>() => { if (abortSignal?.aborted) { this.stop(); return; } this.check(); }\<close>
\<close>

definition interval_callback :: "world \<Rightarrow> world" where
  "interval_callback w = (if aborted w = Some True then stop w else check w)"

text \<open>
  The runtime runs the callback of interval timer \<open>t\<close>, when the timer is active and
  due, and re-arms it if the callback has not cleared it.
\<close>

definition fire_interval :: "nat \<Rightarrow> world \<Rightarrow> world" where
  "fire_interval t w =
     (case find (\<lambda>(i, d, due). i = t) (intervals w) of
        None \<Rightarrow> w
      | Some (i, d, due) \<Rightarrow>
          if now w < due then w
          else
            (let w1 = interval_callback w in
             w1\<lparr>intervals :=
                   map (\<lambda>(i', d', due'). if i' = t then (i', d', now w1 + d') else (i', d', due'))
                     (intervals w1)\<rparr>))"

text \<open>
  The runtime runs the pending \<^verbatim>\<open>setTimeout\<close> callbacks that are due, in the order they
  were scheduled (all have the same delay), and keeps the others.
\<close>

definition run_timeouts :: "world \<Rightarrow> world" where
  "run_timeouts w =
     fold (\<lambda>(due, resume). gateway_connect resume)
       (filter (\<lambda>(due, resume). due \<le> now w) (timeouts w))
       (w\<lparr>timeouts := filter (\<lambda>(due, resume). \<not> due \<le> now w) (timeouts w)\<rparr>)"

text \<open>
  What can happen to a watchdog: its owner calls a method, the gateway emits an event,
  time passes, the runtime fires a timer, the transport changes its connection status,
  the abort signal fires.
\<close>

datatype event =
    Start
  | Stop
  | Emit event_name
  | Elapse nat
  | IntervalFires nat
  | TimeoutsFire
  | SetConnected bool
  | Abort

fun step :: "event \<Rightarrow> world \<Rightarrow> world" where
  "step Start w = start w"
| "step Stop w = stop w"
| "step (Emit n) w = emit n w"
| "step (Elapse d) w = w\<lparr>now := now w + int d\<rparr>"
| "step (IntervalFires t) w = fire_interval t w"
| "step TimeoutsFire w = run_timeouts w"
| "step (SetConnected b) w = w\<lparr>gateway := (gateway w)\<lparr>isConnected := b\<rparr>\<rparr>"
| "step Abort w = (case aborted w of None \<Rightarrow> w | Some b \<Rightarrow> w\<lparr>aborted := Some True\<rparr>)"

definition run :: "event list \<Rightarrow> world \<Rightarrow> world" where
  "run es w = fold step es w"

subsection \<open>Observations used in the statements\<close>

text \<open>Every session field the gateway has is null.\<close>

definition session_cleared :: "gateway \<Rightarrow> bool" where
  "session_cleared g =
     ((case state g of
         None \<Rightarrow> True
       | Some s \<Rightarrow> sessionId s = None \<and> resumeGatewayUrl s = None \<and> sequence s = None)
      \<and> (gw_sequence g = NoProp \<or> gw_sequence g = Null))"

text \<open>The null writes a fresh connect performs, for the session fields the gateway has.\<close>

definition session_writes :: "gateway \<Rightarrow> handle_op list" where
  "session_writes g =
     (if state g = None then [] else [ClearSessionId, ClearResumeGatewayUrl, ClearStateSequence])
     @ (if gw_sequence g = NoProp then [] else [ClearSequence])"

text \<open>The connects of the pending callbacks that are due at time \<open>t\<close>.\<close>

definition due_connects :: "int \<Rightarrow> world \<Rightarrow> handle_op list" where
  "due_connects t w =
     map (\<lambda>(due, resume). CallConnect resume) (filter (\<lambda>(due, resume). due \<le> t) (timeouts w))"

text \<open>
  A step that calls the liveness listener: the gateway emits an event that has a
  listener registered.
\<close>

fun records_signal :: "event \<Rightarrow> world \<Rightarrow> bool" where
  "records_signal (Emit n) w =
     (case emitter (gateway w) of None \<Rightarrow> False | Some em \<Rightarrow> listeners_of n em \<noteq> [])"
| "records_signal e w = False"

text \<open>
  A step that runs a check into its fresh-connect branch: an active, due interval
  timer fires, the signal is not aborted, the silence is stale, the gateway reports
  connected and the incremented count has reached the maximum.
\<close>

fun fresh_connect_check :: "event \<Rightarrow> world \<Rightarrow> bool" where
  "fresh_connect_check (IntervalFires t) w =
     (case find (\<lambda>(i, d, due). i = t) (intervals w) of
        None \<Rightarrow> False
      | Some (i, d, due) \<Rightarrow>
          due \<le> now w \<and> aborted w \<noteq> Some True
          \<and> staleThresholdMs (wd w) \<le> now w - lastEventAt (wd w)
          \<and> isConnected (gateway w)
          \<and> maxStaleBeforeFreshConnect (wd w) \<le> consecutiveStale (wd w) + 1)"
| "fresh_connect_check e w = False"

subsection \<open>A concrete gateway and watchdog\<close>

text \<open>
  A connected gateway with a session and an emitter, and the watchdog the constructor
  builds from no options at clock value 0 (60 s interval, 120 s threshold, fresh
  connect at 3).
\<close>

definition example_gateway :: gateway where
  "example_gateway =
     \<lparr> isConnected = True,
       state = Some \<lparr> sessionId = Some ''abc'', resumeGatewayUrl = Some ''wss://gw'',
                      sequence = Some 42 \<rparr>,
       gw_sequence = Num 42,
       emitter = Some \<lparr> debug_listeners = [], metrics_listeners = [] \<rparr> \<rparr>"

definition example_world :: world where
  "example_world =
     \<lparr> now = 0, intervals = [], timeouts = [], next_id = 0,
       gateway = example_gateway, handle_ops = [], aborted = None, logs = [],
       wd = \<lparr> lastEventAt = 0, consecutiveStale = 0, checkTimer = None,
              eventListener = None, checkIntervalMs = 60000, staleThresholdMs = 120000,
              maxStaleBeforeFreshConnect = 3 \<rparr> \<rparr>"

text \<open>
  The same world at 360 s, after two stale checks, with one settle callback pending.
\<close>

definition stale_world :: world where
  "stale_world = example_world\<lparr>now := 360000,
      wd := (wd example_world)\<lparr>lastEventAt := 240000, consecutiveStale := 2\<rparr>,
      timeouts := [(241000, True)]\<rparr>"

text \<open>The same world at 120 s, with no event since creation.\<close>

definition first_stale_world :: world where
  "first_stale_world = example_world\<lparr>now := 120000\<rparr>"

text \<open>The same, with a gateway that reports disconnected.\<close>

definition disconnected_world :: world where
  "disconnected_world =
     example_world\<lparr>now := 120000, gateway := example_gateway\<lparr>isConnected := False\<rparr>\<rparr>"

text \<open>Options with a zero check interval and a negative stale threshold.\<close>

definition nonpositive_opts :: watchdog_opts where
  "nonpositive_opts =
     \<lparr> opt_checkIntervalMs = Some 0, opt_staleThresholdMs = Some (- 5),
       opt_maxStaleBeforeFreshConnect = None \<rparr>"

text \<open>
  A run of the example: start, a healthy check at 60 s, a stale check at 120 s (a
  resume reconnect), and \<^verbatim>\<open>stop()\<close> half a second later. The listener is allocated as
  0 and the interval timer as 1.
\<close>

definition until_stop :: "event list" where
  "until_stop =
     [Start, Elapse 60000, IntervalFires 1, Elapse 60000, IntervalFires 1, Elapse 500, Stop]"

text \<open>
  The watchdog holds no timer and no listener, and none is installed: the state of a
  watchdog that was never started, or was started once and stopped.
\<close>

definition detached :: "world \<Rightarrow> bool" where
  "detached w =
     (intervals w = [] \<and> checkTimer (wd w) = None \<and> eventListener (wd w) = None
      \<and> (case emitter (gateway w) of
            None \<Rightarrow> True
          | Some em \<Rightarrow> debug_listeners em = [] \<and> metrics_listeners em = []))"

section \<open>Auxiliary facts\<close>

lemma handle_ops_fold_connect:
  "handle_ops (fold (\<lambda>(due, resume). gateway_connect resume) xs w)
     = handle_ops w @ map (\<lambda>(due, resume). CallConnect resume) xs"
  by (induction xs arbitrary: w) (auto simp: gateway_connect_def)

lemma gateway_fold_connect:
  "gateway (fold (\<lambda>(due, resume). gateway_connect resume) xs w) = gateway w"
  by (induction xs arbitrary: w) (auto simp: gateway_connect_def)

lemma wd_fold_connect:
  "wd (fold (\<lambda>(due, resume). gateway_connect resume) xs w) = wd w"
  by (induction xs arbitrary: w) (auto simp: gateway_connect_def)

lemma handle_ops_run_timeouts:
  "handle_ops (run_timeouts w) = handle_ops w @ due_connects (now w) w"
  by (simp add: run_timeouts_def handle_ops_fold_connect due_connects_def)

text \<open>The fresh-connect branch of \<open>check\<close>, as the sequence of its statements.\<close>

lemma check_stale_connected_fresh:
  assumes "isConnected (gateway w)"
    and "staleThresholdMs (wd w) \<le> now w - lastEventAt (wd w)"
    and "maxStaleBeforeFreshConnect (wd w) \<le> consecutiveStale (wd w) + 1"
  shows "check w =
     (setTimeout_connect False (gateway_disconnect (clear_sequence (clear_state
        (runtime_log LogFreshConnect w)))))
       \<lparr>wd := (wd w)\<lparr>consecutiveStale := 0, lastEventAt := now w\<rparr>\<rparr>"
  using assms
  by (auto simp: check_def Let_def runtime_log_def clear_state_def clear_sequence_def
      gateway_disconnect_def setTimeout_connect_def split: option.splits)

lemma gateway_run_timeouts: "gateway (run_timeouts w) = gateway w"
  by (simp add: run_timeouts_def gateway_fold_connect)

lemma wd_run_timeouts: "wd (run_timeouts w) = wd w"
  by (simp add: run_timeouts_def wd_fold_connect)

text \<open>The resume branch of \<open>check\<close>, as the sequence of its statements.\<close>

lemma check_stale_connected_resume:
  assumes "isConnected (gateway w)"
    and "staleThresholdMs (wd w) \<le> now w - lastEventAt (wd w)"
    and "consecutiveStale (wd w) + 1 < maxStaleBeforeFreshConnect (wd w)"
  shows "check w =
     (setTimeout_connect True (gateway_disconnect (runtime_log LogReconnect w)))
       \<lparr>wd := (wd w)\<lparr>consecutiveStale := consecutiveStale (wd w) + 1, lastEventAt := now w\<rparr>\<rparr>"
  using assms
  by (auto simp: check_def Let_def runtime_log_def gateway_disconnect_def setTimeout_connect_def)

text \<open>The counter after each operation.\<close>

lemma consecutiveStale_check:
  "consecutiveStale (wd (check w)) =
     (if now w - lastEventAt (wd w) < staleThresholdMs (wd w) then consecutiveStale (wd w)
      else if isConnected (gateway w)
              \<and> maxStaleBeforeFreshConnect (wd w) \<le> consecutiveStale (wd w) + 1 then 0
      else consecutiveStale (wd w) + 1)"
  by (auto simp: check_def Let_def runtime_log_def clear_state_def clear_sequence_def
      gateway_disconnect_def setTimeout_connect_def split: option.splits)

lemma consecutiveStale_stop: "consecutiveStale (wd (stop w)) = consecutiveStale (wd w)"
  by (simp add: stop_def Let_def split: option.splits)

lemma consecutiveStale_start: "consecutiveStale (wd (start w)) = consecutiveStale (wd w)"
  by (simp add: start_def subscribe_def Let_def runtime_log_def split: option.splits)

lemma consecutiveStale_listeners:
  "consecutiveStale (wd (fold (\<lambda>l. eventListener_call) ls w)) =
     (if ls = [] then consecutiveStale (wd w) else 0)"
  by (induction ls arbitrary: w) (auto simp: eventListener_call_def)

lemma consecutiveStale_emit:
  "consecutiveStale (wd (emit n w)) =
     (if records_signal (Emit n) w then 0 else consecutiveStale (wd w))"
  by (simp add: emit_def consecutiveStale_listeners split: option.splits)

lemma consecutiveStale_fire_interval:
  "consecutiveStale (wd (fire_interval t w)) = consecutiveStale (wd w)
   \<or> consecutiveStale (wd (fire_interval t w)) = consecutiveStale (wd w) + 1
   \<or> (fresh_connect_check (IntervalFires t) w \<and> consecutiveStale (wd (fire_interval t w)) = 0)"
  by (auto simp: fire_interval_def interval_callback_def Let_def consecutiveStale_check
      consecutiveStale_stop split: option.splits)

lemma fresh_connect_check_resets:
  "fresh_connect_check e w \<Longrightarrow> consecutiveStale (wd (step e w)) = 0"
  by (cases e)
    (auto simp: fire_interval_def interval_callback_def Let_def consecutiveStale_check
      split: option.splits)

text \<open>
  What \<open>stop()\<close> does achieve. It detaches a watchdog that was started once; and from
  a detached world with no settle callback pending, no run without \<open>start()\<close> changes
  the watchdog, the session fields or the trace of gateway operations.
\<close>

lemma fold_connect_eq:
  "fold (\<lambda>(due, resume). gateway_connect resume) xs w
     = w\<lparr>handle_ops := handle_ops w @ map (\<lambda>(due, resume). CallConnect resume) xs\<rparr>"
  by (induction xs arbitrary: w) (auto simp: gateway_connect_def)

lemma run_timeouts_eq:
  "run_timeouts w =
     w\<lparr>timeouts := filter (\<lambda>(due, resume). \<not> due \<le> now w) (timeouts w),
       handle_ops := handle_ops w @ due_connects (now w) w\<rparr>"
  by (simp add: run_timeouts_def fold_connect_eq due_connects_def)

lemma stop_detaches:
  assumes "intervals w = [(t, d, due)]" and "checkTimer (wd w) = Some t"
    and "eventListener (wd w) = Some l" and "emitter (gateway w) = Some em"
    and "debug_listeners em = [l]" and "metrics_listeners em = [l]"
  shows "detached (stop w)"
  using assms by (simp add: detached_def stop_def removeListener_def)

lemma detached_step:
  assumes "detached w" and "e \<noteq> Start"
  shows "detached (step e w) \<and> wd (step e w) = wd w
       \<and> state (gateway (step e w)) = state (gateway w)
       \<and> gw_sequence (gateway (step e w)) = gw_sequence (gateway w)
       \<and> timeouts (step e w) = (if e = TimeoutsFire
             then filter (\<lambda>(due, resume). \<not> due \<le> now w) (timeouts w) else timeouts w)
       \<and> handle_ops (step e w)
           = handle_ops w @ (if e = TimeoutsFire then due_connects (now w) w else [])"
  using assms
  by (cases e)
    (auto simp: detached_def stop_def emit_def listeners_of_def fire_interval_def
      run_timeouts_eq split: option.splits event_name.splits)

lemma detached_run:
  assumes "detached w" and "Start \<notin> set es" and "timeouts w = []"
  shows "detached (run es w) \<and> wd (run es w) = wd w
       \<and> state (gateway (run es w)) = state (gateway w)
       \<and> gw_sequence (gateway (run es w)) = gw_sequence (gateway w)
       \<and> timeouts (run es w) = []
       \<and> handle_ops (run es w) = handle_ops w"
  using assms
proof (induction es arbitrary: w)
  case Nil
  then show ?case by (simp add: run_def)
next
  case (Cons e es)
  from Cons.prems have e: "e \<noteq> Start" and es: "Start \<notin> set es"
    by auto
  note s = detached_step [OF Cons.prems(1) e]
  from s Cons.prems(3) have t: "timeouts (step e w) = []"
    by (simp split: if_splits)
  from s Cons.prems(3) have h: "handle_ops (step e w) = handle_ops w"
    by (simp add: due_connects_def split: if_splits)
  have r: "run (e # es) w = run es (step e w)"
    by (simp add: run_def)
  from s have d: "detached (step e w)" by simp
  show ?case
    unfolding r using Cons.IH [OF d es t] s h by simp
qed

section \<open>Properties of a single check\<close>

text \<open>
  C5. A check that finds the silence strictly below the threshold returns at once:
  the whole world is unchanged, so there is no call on the gateway, no write to its
  session fields, and \<open>consecutiveStale\<close> and \<open>lastEventAt\<close> keep their values.
\<close>

theorem check_healthy_no_effect:
  assumes "now w - lastEventAt (wd w) < staleThresholdMs (wd w)"
  shows "check w = w"
  using assms by (simp add: check_def)

theorem check_healthy_no_effect_witness:
  "now (example_world\<lparr>now := 60000\<rparr>) - lastEventAt (wd (example_world\<lparr>now := 60000\<rparr>))
     < staleThresholdMs (wd (example_world\<lparr>now := 60000\<rparr>))
   \<and> check (example_world\<lparr>now := 60000\<rparr>) = example_world\<lparr>now := 60000\<rparr>"
  using check_healthy_no_effect [of "example_world\<lparr>now := 60000\<rparr>"]
  by (simp add: example_world_def)

text \<open>
  C6. Every call of the liveness listener sets \<open>lastEventAt\<close> to the current time and
  \<open>consecutiveStale\<close> to 0, whatever the state before; a second call right after the
  first (at any later or equal clock value \<open>t\<close>) has the same full effect.
\<close>

theorem eventListener_resets:
  "lastEventAt (wd (eventListener_call w)) = now w
   \<and> consecutiveStale (wd (eventListener_call w)) = 0
   \<and> lastEventAt (wd (eventListener_call ((eventListener_call w)\<lparr>now := t\<rparr>))) = t
   \<and> consecutiveStale (wd (eventListener_call ((eventListener_call w)\<lparr>now := t\<rparr>))) = 0"
  by (simp add: eventListener_call_def)

text \<open>
  C1. A check that finds the gateway connected and stale, with the incremented count
  at or above \<open>maxStaleBeforeFreshConnect\<close>, writes null to every session field the
  gateway has (the three fields of \<open>gateway.state\<close> when that object exists, and
  \<open>gateway.sequence\<close> when that property exists) and only then calls \<open>disconnect()\<close>;
  it schedules \<open>connect(false)\<close> for 1000 ms later, so that the timer phase of the
  runtime \<open>d\<close> ms after the check calls it exactly when \<open>d\<close> is at least 1000, after
  the connects scheduled earlier; and it sets \<open>consecutiveStale\<close> to 0 (and
  \<open>lastEventAt\<close> to the current time).
\<close>

theorem check_fresh_connect:
  assumes "isConnected (gateway w)"
    and "staleThresholdMs (wd w) \<le> now w - lastEventAt (wd w)"
    and "maxStaleBeforeFreshConnect (wd w) \<le> consecutiveStale (wd w) + 1"
  shows "handle_ops (check w) = handle_ops w @ session_writes (gateway w) @ [CallDisconnect]
       \<and> session_cleared (gateway (check w))
       \<and> (state (gateway (check w)) = None) = (state (gateway w) = None)
       \<and> (gw_sequence (gateway (check w)) = NoProp) = (gw_sequence (gateway w) = NoProp)
       \<and> timeouts (check w) = timeouts w @ [(now w + 1000, False)]
       \<and> handle_ops (run_timeouts (step (Elapse d) (check w)))
           = handle_ops w @ session_writes (gateway w) @ [CallDisconnect]
               @ due_connects (now w + int d) w
               @ (if 1000 \<le> d then [CallConnect False] else [])
       \<and> consecutiveStale (wd (check w)) = 0
       \<and> lastEventAt (wd (check w)) = now w"
  unfolding check_stale_connected_fresh [OF assms]
  by (auto simp: runtime_log_def clear_state_def clear_sequence_def
      gateway_disconnect_def setTimeout_connect_def session_writes_def session_cleared_def
      handle_ops_run_timeouts due_connects_def split: option.splits)

theorem check_fresh_connect_witness:
  "isConnected (gateway stale_world)
   \<and> staleThresholdMs (wd stale_world) \<le> now stale_world - lastEventAt (wd stale_world)
   \<and> maxStaleBeforeFreshConnect (wd stale_world) \<le> consecutiveStale (wd stale_world) + 1
   \<and> handle_ops (check stale_world)
        = [ClearSessionId, ClearResumeGatewayUrl, ClearStateSequence, ClearSequence, CallDisconnect]
   \<and> session_cleared (gateway (check stale_world))
   \<and> timeouts (check stale_world) = [(241000, True), (361000, False)]
   \<and> handle_ops (run_timeouts (step (Elapse 1000) (check stale_world)))
        = [ClearSessionId, ClearResumeGatewayUrl, ClearStateSequence, ClearSequence, CallDisconnect,
           CallConnect True, CallConnect False]
   \<and> consecutiveStale (wd (check stale_world)) = 0"
  using check_fresh_connect [of stale_world 1000]
  by (simp add: stale_world_def example_world_def example_gateway_def session_writes_def
      due_connects_def)

text \<open>
  C2. With \<open>maxStaleBeforeFreshConnect = 3\<close>, a check that finds the gateway connected
  and stale, with an incremented count of 1 or 2, calls \<open>disconnect()\<close> and schedules
  \<open>connect(true)\<close> for 1000 ms later, so that the timer phase of the runtime \<open>d\<close> ms
  after the check calls it exactly when \<open>d\<close> is at least 1000, after the connects
  scheduled earlier. The gateway object is left as it was, so no session field is
  written, neither by the check nor by the settle callback.
\<close>

theorem check_resume_reconnect:
  assumes "isConnected (gateway w)"
    and "staleThresholdMs (wd w) \<le> now w - lastEventAt (wd w)"
    and "maxStaleBeforeFreshConnect (wd w) = 3"
    and "consecutiveStale (wd w) + 1 = 1 \<or> consecutiveStale (wd w) + 1 = 2"
  shows "handle_ops (check w) = handle_ops w @ [CallDisconnect]
       \<and> gateway (check w) = gateway w
       \<and> timeouts (check w) = timeouts w @ [(now w + 1000, True)]
       \<and> handle_ops (run_timeouts (step (Elapse d) (check w)))
           = handle_ops w @ [CallDisconnect] @ due_connects (now w + int d) w
               @ (if 1000 \<le> d then [CallConnect True] else [])
       \<and> gateway (run_timeouts (step (Elapse d) (check w))) = gateway w
       \<and> consecutiveStale (wd (check w)) = consecutiveStale (wd w) + 1
       \<and> lastEventAt (wd (check w)) = now w"
proof -
  from assms(3,4) have "consecutiveStale (wd w) + 1 < maxStaleBeforeFreshConnect (wd w)"
    by auto
  note eq = check_stale_connected_resume [OF assms(1,2) this]
  show ?thesis
    unfolding eq
    by (simp add: runtime_log_def gateway_disconnect_def setTimeout_connect_def
        handle_ops_run_timeouts due_connects_def gateway_run_timeouts)
qed

theorem check_resume_reconnect_witness:
  "isConnected (gateway first_stale_world)
   \<and> staleThresholdMs (wd first_stale_world)
        \<le> now first_stale_world - lastEventAt (wd first_stale_world)
   \<and> maxStaleBeforeFreshConnect (wd first_stale_world) = 3
   \<and> consecutiveStale (wd first_stale_world) + 1 = 1
   \<and> handle_ops (check first_stale_world) = [CallDisconnect]
   \<and> gateway (check first_stale_world) = example_gateway
   \<and> timeouts (check first_stale_world) = [(121000, True)]
   \<and> handle_ops (run_timeouts (step (Elapse 1000) (check first_stale_world)))
        = [CallDisconnect, CallConnect True]
   \<and> consecutiveStale (wd (check first_stale_world)) = 1"
  using check_resume_reconnect [of first_stale_world 1000]
  by (simp add: first_stale_world_def example_world_def example_gateway_def due_connects_def)

text \<open>
  C3, as stated, fails: a stale check on a disconnected gateway increments
  \<open>consecutiveStale\<close>, since \<^verbatim>\<open>this.consecutiveStale++\<close> stands before the test of
  \<^verbatim>\<open>gateway.isConnected\<close>. Here the count goes from 0 to 1.
\<close>

theorem check_disconnected_counterexample:
  "\<not> isConnected (gateway disconnected_world)
   \<and> staleThresholdMs (wd disconnected_world)
        \<le> now disconnected_world - lastEventAt (wd disconnected_world)
   \<and> consecutiveStale (wd disconnected_world) = 0
   \<and> consecutiveStale (wd (check disconnected_world)) = 1
   \<and> consecutiveStale (wd (check disconnected_world)) \<noteq> consecutiveStale (wd disconnected_world)"
  by (simp add: disconnected_world_def example_world_def example_gateway_def check_def
      runtime_log_def)

text \<open>
  C3, amended. A check that finds the silence stale while the gateway reports
  disconnected makes no call on the gateway and writes no session field (the trace,
  the gateway object and the timer queues are unchanged), leaves \<open>lastEventAt\<close>
  unchanged, and increments \<open>consecutiveStale\<close> by exactly one; it does not reset it.
\<close>

theorem check_disconnected_increments:
  assumes "\<not> isConnected (gateway w)"
    and "staleThresholdMs (wd w) \<le> now w - lastEventAt (wd w)"
  shows "handle_ops (check w) = handle_ops w
       \<and> timeouts (check w) = timeouts w
       \<and> intervals (check w) = intervals w
       \<and> gateway (check w) = gateway w
       \<and> lastEventAt (wd (check w)) = lastEventAt (wd w)
       \<and> consecutiveStale (wd (check w)) = consecutiveStale (wd w) + 1"
  using assms by (simp add: check_def Let_def runtime_log_def)

theorem check_disconnected_increments_witness:
  "\<not> isConnected (gateway disconnected_world)
   \<and> staleThresholdMs (wd disconnected_world)
        \<le> now disconnected_world - lastEventAt (wd disconnected_world)
   \<and> handle_ops (check disconnected_world) = []
   \<and> timeouts (check disconnected_world) = []
   \<and> gateway (check disconnected_world) = example_gateway\<lparr>isConnected := False\<rparr>
   \<and> lastEventAt (wd (check disconnected_world)) = 0
   \<and> consecutiveStale (wd (check disconnected_world)) = 0 + 1"
  using check_disconnected_increments [of disconnected_world]
  by (simp add: disconnected_world_def example_world_def example_gateway_def)

section \<open>Properties of runs\<close>

text \<open>
  C7. Along every sequence of operations (method calls, emitted events, timer
  firings, passing time, status changes), each further operation either leaves
  \<open>consecutiveStale\<close> at least as large as it was or leaves it at 0; an operation that
  lowers it is a liveness event reaching the listener or a check that takes the
  fresh-connect branch; and each of these two leaves it at 0.
\<close>

theorem consecutiveStale_monotone_or_reset:
  "(consecutiveStale (wd (run es w)) \<le> consecutiveStale (wd (run (es @ [e]) w))
      \<or> consecutiveStale (wd (run (es @ [e]) w)) = 0)
   \<and> (consecutiveStale (wd (run (es @ [e]) w)) < consecutiveStale (wd (run es w))
        \<longrightarrow> records_signal e (run es w) \<or> fresh_connect_check e (run es w))
   \<and> (records_signal e (run es w) \<or> fresh_connect_check e (run es w)
        \<longrightarrow> consecutiveStale (wd (run (es @ [e]) w)) = 0)"
proof -
  define v where "v = run es w"
  have r: "run (es @ [e]) w = step e v"
    by (simp add: run_def v_def)
  have sig: "records_signal e v \<Longrightarrow> consecutiveStale (wd (step e v)) = 0"
    by (cases e) (simp_all add: consecutiveStale_emit)
  have mono: "consecutiveStale (wd (step e v)) < consecutiveStale (wd v)
      \<Longrightarrow> records_signal e v \<or> fresh_connect_check e v"
  proof (cases e)
    case (Emit n)
    assume "consecutiveStale (wd (step e v)) < consecutiveStale (wd v)"
    with Emit show ?thesis
      by (simp add: consecutiveStale_emit split: if_splits)
  next
    case (IntervalFires t)
    assume "consecutiveStale (wd (step e v)) < consecutiveStale (wd v)"
    with IntervalFires consecutiveStale_fire_interval [of t v] show ?thesis
      by auto
  qed (simp_all add: consecutiveStale_start consecutiveStale_stop wd_run_timeouts
      split: option.splits)
  have zero: "consecutiveStale (wd v) \<le> consecutiveStale (wd (step e v))
      \<or> consecutiveStale (wd (step e v)) = 0"
    using mono sig fresh_connect_check_resets [of e v] by fastforce
  show ?thesis
    unfolding r v_def [symmetric]
    using mono sig zero fresh_connect_check_resets [of e v] by blast
qed

theorem consecutiveStale_monotone_or_reset_witness:
  "consecutiveStale (wd (run ([Start, Elapse 360000] @ [IntervalFires 1]) stale_world))
      < consecutiveStale (wd (run [Start, Elapse 360000] stale_world))
   \<and> fresh_connect_check (IntervalFires 1) (run [Start, Elapse 360000] stale_world)
   \<and> consecutiveStale (wd (run ([Start, Elapse 360000] @ [IntervalFires 1]) stale_world)) = 0"
  using consecutiveStale_monotone_or_reset [of "[Start, Elapse 360000]" stale_world "IntervalFires 1"]
  by (simp add: run_def start_def subscribe_def stale_world_def example_world_def
      example_gateway_def runtime_log_def node_timer_delay_def Let_def)

section \<open>Construction\<close>

text \<open>
  C8, as stated, fails: the constructor has no validation. Given a check interval of
  0 and a stale threshold of -5 it returns a watchdog that holds these values; it
  signals no invalid configuration.
\<close>

theorem constructor_nonpositive_counterexample:
  "new_GatewayWatchdog nonpositive_opts 0 =
     Inr \<lparr> lastEventAt = 0, consecutiveStale = 0, checkTimer = None, eventListener = None,
           checkIntervalMs = 0, staleThresholdMs = - 5, maxStaleBeforeFreshConnect = 3 \<rparr>
   \<and> new_GatewayWatchdog nonpositive_opts 0 \<noteq> Inl InvalidConfiguration"
  by (simp add: new_GatewayWatchdog_def nonpositive_opts_def)

text \<open>
  C8, amended. Constructing a watchdog never fails: for all options, non-positive
  \<open>checkIntervalMs\<close> and \<open>staleThresholdMs\<close> included, the constructor returns a
  watchdog that holds each given value as it is (60000, 120000 and 3 for an omitted
  option), with \<open>lastEventAt\<close> the time of construction, a count of 0, and neither
  timer nor listener.
\<close>

theorem constructor_never_fails:
  "\<exists>d. new_GatewayWatchdog opts t = Inr d
       \<and> checkIntervalMs d = (case opt_checkIntervalMs opts of None \<Rightarrow> 60000 | Some v \<Rightarrow> v)
       \<and> staleThresholdMs d = (case opt_staleThresholdMs opts of None \<Rightarrow> 120000 | Some v \<Rightarrow> v)
       \<and> maxStaleBeforeFreshConnect d
            = (case opt_maxStaleBeforeFreshConnect opts of None \<Rightarrow> 3 | Some v \<Rightarrow> v)
       \<and> lastEventAt d = t \<and> consecutiveStale d = 0
       \<and> checkTimer d = None \<and> eventListener d = None"
  by (simp add: new_GatewayWatchdog_def)

section \<open>Lifecycle\<close>

text \<open>
  C4 at a concrete run. A stale check at 120 s calls \<open>disconnect()\<close> and schedules
  \<open>connect(true)\<close> for 121 s; \<open>stop()\<close> at 120.5 s clears the interval timer and removes
  the listener, but the scheduled callback stays pending; at 121 s the runtime runs
  it, and \<open>connect(true)\<close> is called on the gateway after \<open>stop()\<close> has returned.
\<close>

theorem settle_connect_fires_after_stop:
  "handle_ops (run until_stop example_world) = [CallDisconnect]
   \<and> intervals (run until_stop example_world) = []
   \<and> checkTimer (wd (run until_stop example_world)) = None
   \<and> eventListener (wd (run until_stop example_world)) = None
   \<and> timeouts (run until_stop example_world) = [(121000, True)]
   \<and> handle_ops (run (until_stop @ [Elapse 500, TimeoutsFire]) example_world)
        = [CallDisconnect, CallConnect True]"
  by (simp add: until_stop_def run_def start_def subscribe_def stop_def fire_interval_def
      interval_callback_def check_def run_timeouts_def gateway_connect_def gateway_disconnect_def
      setTimeout_connect_def runtime_log_def node_timer_delay_def removeListener_def
      example_world_def example_gateway_def Let_def)

text \<open>
  C9 at a concrete run. A second \<open>start()\<close> registers a second listener on both
  events and arms a second interval timer, and overwrites both fields. \<open>stop()\<close> then
  clears timer 3 and removes listener 2 only: timer 1 and listener 0 stay, no field
  refers to them, a further \<open>stop()\<close> changes nothing, and timer 1 still runs checks
  (at 120 s it calls \<open>disconnect()\<close>).
\<close>

theorem start_twice_orphans_timer_and_listener:
  "intervals (run [Start, Start] example_world) = [(1, 60000, 60000), (3, 60000, 60000)]
   \<and> map_option debug_listeners (emitter (gateway (run [Start, Start] example_world))) = Some [0, 2]
   \<and> map_option metrics_listeners (emitter (gateway (run [Start, Start] example_world))) = Some [0, 2]
   \<and> checkTimer (wd (run [Start, Start] example_world)) = Some 3
   \<and> eventListener (wd (run [Start, Start] example_world)) = Some 2
   \<and> intervals (run [Start, Start, Stop] example_world) = [(1, 60000, 60000)]
   \<and> map_option debug_listeners (emitter (gateway (run [Start, Start, Stop] example_world))) = Some [0]
   \<and> checkTimer (wd (run [Start, Start, Stop] example_world)) = None
   \<and> eventListener (wd (run [Start, Start, Stop] example_world)) = None
   \<and> run [Start, Start, Stop, Stop] example_world = run [Start, Start, Stop] example_world
   \<and> handle_ops (run [Start, Start, Stop, Elapse 120000, IntervalFires 1] example_world)
        = [CallDisconnect]"
  by (simp add: run_def start_def subscribe_def stop_def fire_interval_def
      interval_callback_def check_def gateway_disconnect_def
      setTimeout_connect_def runtime_log_def node_timer_delay_def removeListener_def
      example_world_def example_gateway_def Let_def)

end
